theory Spec2Isabelle
  imports Main "HOL-Library.AList" "HOL-Library.Sublist"
begin

section \<open>Python values, exceptions and ordered dictionaries\<close>

text \<open>
  The module \<^verbatim>\<open>datastudio/core/metadata.py\<close> keeps every metadata record in an
  \<^verbatim>\<open>OrderedDict\<close> from attribute name to value. The values that the module itself
  stores are strings, integers, booleans and lists of strings.
\<close>

datatype pyval =
    VStr string
  | VInt int
  | VBool bool
  | VList "string list"

text \<open>
  The exceptions that the modelled code can raise. The specification calls the
  \<^verbatim>\<open>ValueError\<close> of \<^verbatim>\<open>AbstractMetadata.add\<close> a DuplicateKeyError, the
  \<^verbatim>\<open>KeyError\<close> of \<^verbatim>\<open>AbstractMetadata.get\<close> and \<^verbatim>\<open>change\<close> a MissingKeyError,
  and the \<^verbatim>\<open>KeyError\<close> that \<^verbatim>\<open>Metadata.get\<close> constructs for a lookup without a
  match a NotFoundError.
\<close>

datatype error =
    ValueError
  | KeyError
  | StopIteration
  | AttributeError
  | TypeError

text \<open>
  An ordered dictionary is an association list in insertion order.
  \<^verbatim>\<open>d[k] = v\<close> is \<^const>\<open>AList.update\<close> (overwrite in place, or append at the end),
  \<^verbatim>\<open>k in d\<close> is \<open>map_of d k \<noteq> None\<close>, \<^verbatim>\<open>del d[k]\<close> is \<^const>\<open>AList.delete\<close>.
\<close>

type_synonym 'v odict = "(string \<times> 'v) list"

text \<open>Truthiness of a Python string: only the empty string is falsy.\<close>

definition truthy_str :: "string \<Rightarrow> bool" where
  "truthy_str s = (s \<noteq> [])"

text \<open>\<^verbatim>\<open>x + 1\<close> on a stored value: a \<^verbatim>\<open>bool\<close> is an \<^verbatim>\<open>int\<close> in Python, a string or a
  list raises \<^verbatim>\<open>TypeError\<close>.\<close>

fun py_add1 :: "pyval \<Rightarrow> error + pyval" where
  "py_add1 (VInt n) = Inr (VInt (n + 1))"
| "py_add1 (VBool b) = Inr (VInt ((if b then 1 else 0) + 1))"
| "py_add1 (VStr s) = Inl TypeError"
| "py_add1 (VList xs) = Inl TypeError"

text \<open>\<^verbatim>\<open>d[k] += 1\<close>: reads \<^verbatim>\<open>d[k]\<close> (\<^verbatim>\<open>KeyError\<close> when absent), adds, stores back.
  Nothing is written when it raises.\<close>

definition dict_incr :: "string \<Rightarrow> pyval odict \<Rightarrow> error + pyval odict" where
  "dict_incr k d =
     (case map_of d k of
        None \<Rightarrow> Inl KeyError
      | Some v \<Rightarrow> (case py_add1 v of
                    Inl e \<Rightarrow> Inl e
                  | Inr v' \<Rightarrow> Inr (AList.update k v' d)))"

subsection \<open>Strings and runs of assignments\<close>

text \<open>
  \<^verbatim>\<open>s.lower()\<close> on the ASCII letters (a \<open>char\<close> is a byte; other bytes are left as
  they are), and \<^verbatim>\<open>s in t\<close> on strings: \<open>s\<close> occurs in \<open>t\<close> as a contiguous run.
\<close>

definition lower_char :: "char \<Rightarrow> char" where
  "lower_char c =
     (case map_of (zip ''ABCDEFGHIJKLMNOPQRSTUVWXYZ'' ''abcdefghijklmnopqrstuvwxyz'') c of
        None \<Rightarrow> c
      | Some l \<Rightarrow> l)"

definition lower :: "string \<Rightarrow> string" where
  "lower s = map lower_char s"

fun py_in :: "string \<Rightarrow> string \<Rightarrow> bool" where
  "py_in s [] = (s = [])"
| "py_in s (c # cs) = (prefix s (c # cs) \<or> py_in s cs)"

text \<open>\<^verbatim>\<open>str(n)\<close> of a non-negative integer.\<close>

definition digit_char :: "nat \<Rightarrow> char" where
  "digit_char n = ''0123456789'' ! n"

fun str_nat :: "nat \<Rightarrow> string" where
  "str_nat n =
     (if n < 10 then [digit_char n] else str_nat (n div 10) @ [digit_char (n mod 10)])"

declare str_nat.simps [simp del]

text \<open>A run of assignments \<^verbatim>\<open>d[k] = v\<close>, in order; also \<^verbatim>\<open>d.update(other)\<close>.\<close>

fun setitems :: "(string \<times> 'v) list \<Rightarrow> 'v odict \<Rightarrow> 'v odict" where
  "setitems [] d = d"
| "setitems ((k, v) # kvs) d = setitems kvs (AList.update k v d)"

section \<open>Metadata records\<close>

text \<open>
  The four kinds of record; each constructor of the source assigns one of these literals
  to \<^verbatim>\<open>self.metadata_type\<close>.
\<close>

datatype kind = Administrative | Descriptive | Technical | Process

fun kind_name :: "kind \<Rightarrow> string" where
  "kind_name Administrative = ''Administrative''"
| "kind_name Descriptive = ''Descriptive''"
| "kind_name Technical = ''Technical''"
| "kind_name Process = ''Process''"

text \<open>
  What the module reads from the entity it describes: the name of its class, and (for a
  collection) the mapping returned by \<^verbatim>\<open>entity.get()\<close>, from member name to member.
  Of a member only the name of its class is read.
\<close>

record entity =
  classname :: string
  members :: "string odict"

text \<open>
  The instance attributes of a metadata object. \<^verbatim>\<open>AbstractMetadata.__init__\<close> assigns
  \<^verbatim>\<open>self._entity\<close> and \<^verbatim>\<open>self._metadata\<close> only; no constructor assigns \<^verbatim>\<open>self._name\<close>,
  so that attribute is \<open>None\<close> (absent) on every constructed object. The entity is a
  reference to an object owned by the caller: operations that read it take its current
  state as an argument.
\<close>

record metadata_obj =
  metadata_type :: kind
  metadata_dict :: "pyval odict"
  name_attr :: "string option"

text \<open>The result of a \<^verbatim>\<open>get\<close>: the whole mapping, or one item of it.\<close>

datatype ('d, 'v) got = Whole 'd | Item 'v

subsection \<open>AbstractMetadata\<close>

text \<open>
  Every operation returns its outcome (\<open>Inl\<close> the exception raised) together with the
  object as the call leaves it, since an exception does not undo earlier writes.
\<close>

definition AbstractMetadata_update ::
  "metadata_obj \<Rightarrow> string option \<Rightarrow> (error + unit) \<times> metadata_obj" where
  "AbstractMetadata_update self event =
     (case dict_incr ''updates'' (metadata_dict self) of
        Inl e \<Rightarrow> (Inl e, self)
      | Inr d \<Rightarrow> (Inr (), self\<lparr>metadata_dict := d\<rparr>))"

definition AbstractMetadata_get ::
  "metadata_obj \<Rightarrow> string option \<Rightarrow> (error + (pyval odict, pyval) got) \<times> metadata_obj" where
  "AbstractMetadata_get self key =
     (case key of
        None \<Rightarrow> (Inr (Whole (metadata_dict self)), self)
      | Some k \<Rightarrow>
          (if truthy_str k then
             (case map_of (metadata_dict self) k of
                Some v \<Rightarrow> (Inr (Item v), self)
              | None \<Rightarrow> (Inl KeyError, self))
           else (Inr (Whole (metadata_dict self)), self)))"

definition AbstractMetadata_add ::
  "metadata_obj \<Rightarrow> string \<Rightarrow> pyval \<Rightarrow> (error + unit) \<times> metadata_obj" where
  "AbstractMetadata_add self key val =
     (if map_of (metadata_dict self) key = None
      then (Inr (), self\<lparr>metadata_dict := AList.update key val (metadata_dict self)\<rparr>)
      else (Inl ValueError, self))"

definition AbstractMetadata_change ::
  "metadata_obj \<Rightarrow> string \<Rightarrow> pyval \<Rightarrow> (error + unit) \<times> metadata_obj" where
  "AbstractMetadata_change self key val =
     (if map_of (metadata_dict self) key = None
      then (Inl KeyError, self)
      else (Inr (), self\<lparr>metadata_dict := AList.update key val (metadata_dict self)\<rparr>))"

text \<open>
  \<^verbatim>\<open>remove\<close> catches the \<^verbatim>\<open>KeyError\<close> of \<^verbatim>\<open>del\<close> and prints a notice instead; the
  lines printed are part of the outcome.
\<close>

definition AbstractMetadata_remove ::
  "metadata_obj \<Rightarrow> string \<Rightarrow> (error + string list) \<times> metadata_obj" where
  "AbstractMetadata_remove self key =
     (if map_of (metadata_dict self) key = None
      then (Inr [''Key '' @ key @ '' does not exist.''], self)
      else (Inr [], self\<lparr>metadata_dict := AList.delete key (metadata_dict self)\<rparr>))"

subsection \<open>The ambient facts read by the constructors\<close>

text \<open>
  The login name (\<^verbatim>\<open>os.getlogin()\<close>), the wall clock (\<^verbatim>\<open>datetime.now()\<close> and
  \<^verbatim>\<open>time.strftime("%c")\<close>) and the fresh identifier (\<^verbatim>\<open>str(uuid.uuid4())\<close>) are
  inputs of the model.
\<close>

record date =
  year :: nat
  month :: nat
  day :: nat
  hour :: nat
  minute :: nat
  second :: nat

record env =
  getlogin :: string
  now :: date
  strftime_c :: string
  uuid4 :: string

subsection \<open>MetadataAdmin and MetadataAdminURL\<close>

definition MetadataAdmin_init ::
  "env \<Rightarrow> entity \<Rightarrow> string \<Rightarrow> pyval odict \<Rightarrow> metadata_obj" where
  "MetadataAdmin_init e ent name kwargs =
     (let user = getlogin e;
          d = now e;
          date_string = str_nat (year d) @ ''-'' @ str_nat (month d) @ ''-'' @
            str_nat (day d) @ ''_'' @ str_nat (hour d) @ ''-'' @ str_nat (minute d) @ ''-''
            @ str_nat (second d);
          date_formatted = strftime_c e;
          cls = classname ent
      in \<lparr>metadata_type = Administrative,
          metadata_dict = setitems
            [(''id'', VStr (uuid4 e)),
             (''name'', VStr name),
             (''creator'', VStr user),
             (''created'', VStr date_formatted),
             (''modifier'', VStr user),
             (''modified'', VStr date_formatted),
             (''updates'', VInt 0),
             (''classname'', VStr cls),
             (''objectname'', VStr (lower user @ ''_'' @ date_string @ ''_'' @ ''_''
                @ lower cls @ ''_'' @ lower name))] [],
          name_attr = None\<rparr>)"

text \<open>
  \<^verbatim>\<open>MetadataAdmin.update\<close> calls the base \<^verbatim>\<open>update\<close>, rewrites \<^verbatim>\<open>modifier\<close> and
  \<^verbatim>\<open>modified\<close>, and then adds one to \<^verbatim>\<open>updates\<close> once more.
\<close>

definition MetadataAdmin_update ::
  "env \<Rightarrow> metadata_obj \<Rightarrow> string option \<Rightarrow> (error + unit) \<times> metadata_obj" where
  "MetadataAdmin_update e self event =
     (case AbstractMetadata_update self None of
        (Inl err, s) \<Rightarrow> (Inl err, s)
      | (Inr u, s) \<Rightarrow>
          (let d1 = AList.update ''modifier'' (VStr (getlogin e)) (metadata_dict s);
               d2 = AList.update ''modified'' (VStr (strftime_c e)) d1
           in case dict_incr ''updates'' d2 of
                Inl err \<Rightarrow> (Inl err, s\<lparr>metadata_dict := d2\<rparr>)
              | Inr d3 \<Rightarrow> (Inr (), s\<lparr>metadata_dict := d3\<rparr>)))"

text \<open>
  \<^verbatim>\<open>MetadataAdminURL.__init__\<close> filters the items of \<^verbatim>\<open>self._metadata\<close> (not those of
  \<^verbatim>\<open>kwargs\<close>) for keys containing \<^verbatim>\<open>'url'\<close> and updates \<^verbatim>\<open>self._metadata\<close> with them.
\<close>

definition MetadataAdminURL_init ::
  "env \<Rightarrow> entity \<Rightarrow> string \<Rightarrow> pyval odict \<Rightarrow> metadata_obj" where
  "MetadataAdminURL_init e ent name kwargs =
     (let self = MetadataAdmin_init e ent name kwargs;
          url = setitems (filter (\<lambda>item. py_in ''url'' (fst item)) (metadata_dict self)) []
      in self\<lparr>metadata_dict := setitems url (metadata_dict self)\<rparr>)"

subsection \<open>MetadataDesc and MetadataDescDataCollection\<close>

definition MetadataDesc_init :: "entity \<Rightarrow> string \<Rightarrow> pyval odict \<Rightarrow> metadata_obj" where
  "MetadataDesc_init ent name kwargs =
     \<lparr>metadata_type = Descriptive,
      metadata_dict = setitems
        [(''type'', VStr []),
         (''category'', VStr []),
         (''title'', VStr []),
         (''description_short'', VStr []),
         (''description'', VStr []),
         (''class'', VStr (classname ent)),
         (''version'', VStr ''0.1.0'')] [],
      name_attr = None\<rparr>"

definition MetadataDescDataCollection_reset :: "metadata_obj \<Rightarrow> metadata_obj" where
  "MetadataDescDataCollection_reset self =
     self\<lparr>metadata_dict := setitems
       [(''n_members'', VInt 0),
        (''n_members_datacollection'', VInt 0),
        (''n_members_dataset'', VInt 0)] (metadata_dict self)\<rparr>"

definition MetadataDescDataCollection_init ::
  "entity \<Rightarrow> string \<Rightarrow> pyval odict \<Rightarrow> metadata_obj" where
  "MetadataDescDataCollection_init ent name kwargs =
     MetadataDescDataCollection_reset (MetadataDesc_init ent name kwargs)"

text \<open>
  The loop of \<^verbatim>\<open>MetadataDescDataCollection.update\<close> over the items of
  \<^verbatim>\<open>self._entity.get()\<close>; \<open>c\<close> is the name of the member's class.
\<close>

fun count_members ::
  "string odict \<Rightarrow> pyval odict \<Rightarrow> (error + unit) \<times> pyval odict" where
  "count_members [] d = (Inr (), d)"
| "count_members ((k, c) # items) d =
     (case dict_incr ''n_members'' d of
        Inl err \<Rightarrow> (Inl err, d)
      | Inr d1 \<Rightarrow>
          (case dict_incr (if c = ''DataCollection'' then ''n_members_datacollection''
                           else ''n_members_dataset'') d1 of
             Inl err \<Rightarrow> (Inl err, d1)
           | Inr d2 \<Rightarrow> count_members items d2))"

definition MetadataDescDataCollection_update ::
  "entity \<Rightarrow> metadata_obj \<Rightarrow> string option \<Rightarrow> (error + unit) \<times> metadata_obj" where
  "MetadataDescDataCollection_update ent self event =
     (let s = MetadataDescDataCollection_reset self
      in case count_members (members ent) (metadata_dict s) of
           (r, d) \<Rightarrow> (r, s\<lparr>metadata_dict := d\<rparr>))"

subsection \<open>MetadataProcess\<close>

definition MetadataProcess_init ::
  "env \<Rightarrow> entity \<Rightarrow> string \<Rightarrow> pyval odict \<Rightarrow> metadata_obj" where
  "MetadataProcess_init e ent name kwargs =
     (let user = getlogin e;
          date_formatted = strftime_c e;
          cls = classname ent;
          msg = cls @ '' object named '' @ [CHR 0x27] @ name @ [CHR 0x27]
            @ '' was instantiated '' @ '' at '' @ date_formatted @ '' by '' @ user @ ''.''
      in \<lparr>metadata_type = Process,
          metadata_dict = [(''log'', VList ([] @ [msg]))],
          name_attr = None\<rparr>)"

text \<open>\<^verbatim>\<open>self._metadata['log'].append(msg)\<close>: only a list has \<^verbatim>\<open>append\<close>.\<close>

definition log_append :: "string \<Rightarrow> pyval odict \<Rightarrow> error + pyval odict" where
  "log_append msg d =
     (case map_of d ''log'' of
        None \<Rightarrow> Inl KeyError
      | Some (VList l) \<Rightarrow> Inr (AList.update ''log'' (VList (l @ [msg])) d)
      | Some _ \<Rightarrow> Inl AttributeError)"

text \<open>
  \<^verbatim>\<open>MetadataProcess.update\<close> builds the message before it tests \<^verbatim>\<open>event\<close>: reading
  \<^verbatim>\<open>self._name\<close> raises \<^verbatim>\<open>AttributeError\<close> when the attribute is absent, and
  concatenating \<^verbatim>\<open>None\<close> to a string raises \<^verbatim>\<open>TypeError\<close>.
\<close>

definition MetadataProcess_update ::
  "env \<Rightarrow> entity \<Rightarrow> metadata_obj \<Rightarrow> string option \<Rightarrow> (error + unit) \<times> metadata_obj" where
  "MetadataProcess_update e ent self event =
     (let user = getlogin e;
          date_formatted = strftime_c e;
          cls = classname ent
      in case name_attr self of
           None \<Rightarrow> (Inl AttributeError, self)
         | Some n \<Rightarrow>
             (case event of
                None \<Rightarrow> (Inl TypeError, self)
              | Some ev \<Rightarrow>
                  (let msg = ''Class : '' @ cls @ ''Name : '' @ n @ ''Date : ''
                         @ date_formatted @ ''Event : '' @ ev
                   in if truthy_str ev then
                        (case log_append msg (metadata_dict self) of
                           Inl err \<Rightarrow> (Inl err, self)
                         | Inr d \<Rightarrow> (Inr (), self\<lparr>metadata_dict := d\<rparr>))
                      else (Inr (), self))))"

section \<open>The taxonomy: class Metadata\<close>

type_synonym taxonomy = "metadata_obj odict"

definition Metadata_init :: taxonomy where
  "Metadata_init = []"

definition Metadata_add :: "taxonomy \<Rightarrow> metadata_obj \<Rightarrow> taxonomy" where
  "Metadata_add t m = AList.update (lower (kind_name (metadata_type m))) m t"

text \<open>
  \<^verbatim>\<open>next(v for (k, v) in items if metadata_type.lower() in k.lower())\<close>, called without
  a default: an exhausted generator raises \<^verbatim>\<open>StopIteration\<close>.
\<close>

fun next_match :: "string \<Rightarrow> taxonomy \<Rightarrow> error + metadata_obj" where
  "next_match s [] = Inl StopIteration"
| "next_match s ((k, v) # items) =
     (if py_in (lower s) (lower k) then Inr v else next_match s items)"

text \<open>The metadata classes define neither \<^verbatim>\<open>__bool__\<close> nor \<^verbatim>\<open>__len__\<close>: every object
  is truthy.\<close>

definition truthy_obj :: "metadata_obj \<Rightarrow> bool" where
  "truthy_obj m = True"

definition Metadata_get ::
  "taxonomy \<Rightarrow> string option \<Rightarrow> error + (taxonomy, metadata_obj) got" where
  "Metadata_get t mt =
     (case mt of
        None \<Rightarrow> Inr (Whole t)
      | Some s \<Rightarrow>
          (case next_match s t of
             Inl err \<Rightarrow> Inl err
           | Inr m \<Rightarrow> if truthy_obj m then Inr (Item m) else Inl KeyError))"

text \<open>
  The invariant of a taxonomy: the keys are pairwise different, and every record is
  stored under the lower-cased name of its own kind. The records of one kind:
\<close>

definition taxonomy_inv :: "taxonomy \<Rightarrow> bool" where
  "taxonomy_inv t =
     (distinct (map fst t)
      \<and> list_all (\<lambda>item. fst item = lower (kind_name (metadata_type (snd item)))) t)"

definition records_of_kind :: "kind \<Rightarrow> taxonomy \<Rightarrow> metadata_obj list" where
  "records_of_kind kd t = map snd (filter (\<lambda>item. metadata_type (snd item) = kd) t)"

subsection \<open>MetadataRemoteFactory\<close>

text \<open>
  The instance attributes of a factory. \<^verbatim>\<open>MetadataRemoteFactory.__init__\<close> takes no
  keyword arguments and does not call the base constructor: it assigns \<^verbatim>\<open>_entity\<close>,
  \<^verbatim>\<open>_name\<close> and (through \<^verbatim>\<open>_reset\<close>) \<^verbatim>\<open>_metadata\<close>, and leaves \<^verbatim>\<open>_addl_params\<close> absent.
\<close>

record factory =
  f_entity :: entity
  f_name :: string
  addl_params :: "pyval odict option"
  f_metadata :: taxonomy

definition MetadataRemoteFactory_init :: "entity \<Rightarrow> string \<Rightarrow> factory" where
  "MetadataRemoteFactory_init ent name =
     \<lparr>f_entity = ent, f_name = name, addl_params = None, f_metadata = Metadata_init\<rparr>"

definition MetadataRemoteFactory_create_admin ::
  "env \<Rightarrow> factory \<Rightarrow> (error + unit) \<times> factory" where
  "MetadataRemoteFactory_create_admin e self =
     (case addl_params self of
        None \<Rightarrow> (Inl AttributeError, self)
      | Some kw \<Rightarrow>
          (let admin = MetadataAdminURL_init e (f_entity self) (f_name self) kw
           in (Inr (), self\<lparr>f_metadata := Metadata_add (f_metadata self) admin\<rparr>)))"

section \<open>Concrete inputs\<close>

text \<open>A data set entity, a collection entity and a reading of the ambient facts.\<close>

definition a_dataset :: entity where
  "a_dataset = \<lparr>classname = ''DataSet'', members = []\<rparr>"

definition a_collection :: entity where
  "a_collection =
     \<lparr>classname = ''DataCollection'',
      members = [(''sf'', ''DataSet''), (''archive'', ''DataCollection''),
                 (''nashville'', ''DataSet'')]\<rparr>"

definition an_env :: env where
  "an_env =
     \<lparr>getlogin = ''John'',
      now = \<lparr>year = 2020, month = 2, day = 16, hour = 7, minute = 4, second = 22\<rparr>,
      strftime_c = ''Sun Feb 16 07:04:22 2020'',
      uuid4 = ''0b9f3c1e-5d1c-4c57-9d0e-6a1f2b3c4d5e''\<rparr>"

definition later_env :: env where
  "later_env =
     \<lparr>getlogin = ''jane'',
      now = \<lparr>year = 2020, month = 2, day = 17, hour = 9, minute = 30, second = 0\<rparr>,
      strftime_c = ''Mon Feb 17 09:30:00 2020'',
      uuid4 = ''7c1d2e3f-0a1b-4c2d-8e3f-9a0b1c2d3e4f''\<rparr>"

definition a_desc :: metadata_obj where
  "a_desc = MetadataDesc_init a_dataset ''sf_listings'' []"

definition an_admin :: metadata_obj where
  "an_admin = MetadataAdmin_init an_env a_dataset ''sf_listings'' []"

definition a_process :: metadata_obj where
  "a_process = MetadataProcess_init an_env a_dataset ''sf_listings'' []"

definition a_taxonomy :: taxonomy where
  "a_taxonomy =
     Metadata_add (Metadata_add (Metadata_add Metadata_init an_admin) a_desc) a_process"

section \<open>The attribute store\<close>

lemma map_of_update_same: "map_of (AList.update k v d) k = Some v"
  by (simp add: update_conv')

lemma map_of_update_other: "k' \<noteq> k \<Longrightarrow> map_of (AList.update k v d) k' = map_of d k'"
  by (simp add: update_conv')

text \<open>
  C10. On every metadata record, \<^verbatim>\<open>get("")\<close> performs no key lookup and raises nothing:
  it returns the whole attribute mapping, exactly as \<^verbatim>\<open>get()\<close> without a key does, and
  leaves the record as it is. The empty string is the falsy key of the key type.
\<close>

theorem get_falsy_key_returns_whole:
  "AbstractMetadata_get self (Some '''') = (Inr (Whole (metadata_dict self)), self)
   \<and> AbstractMetadata_get self (Some '''') = AbstractMetadata_get self None
   \<and> fst (AbstractMetadata_get self (Some '''')) \<noteq> Inl KeyError"
  by (simp add: AbstractMetadata_get_def truthy_str_def)

lemma a_desc_dict:
  "metadata_dict a_desc =
     [(''type'', VStr []), (''category'', VStr []), (''title'', VStr []),
      (''description_short'', VStr []), (''description'', VStr []),
      (''class'', VStr ''DataSet''), (''version'', VStr ''0.1.0'')]"
  by (simp add: a_desc_def MetadataDesc_init_def a_dataset_def)

text \<open>
  C1, as stated, fails at the empty key. On a fresh Descriptive record the key \<^verbatim>\<open>""\<close>
  is absent and \<^verbatim>\<open>add("", 7)\<close> succeeds, but \<^verbatim>\<open>get("")\<close> then returns the whole
  mapping, not the value 7.
\<close>

theorem add_then_get_empty_key:
  "map_of (metadata_dict a_desc) '''' = None
   \<and> fst (AbstractMetadata_add a_desc '''' (VInt 7)) = Inr ()
   \<and> fst (AbstractMetadata_get (snd (AbstractMetadata_add a_desc '''' (VInt 7))) (Some ''''))
       = Inr (Whole (metadata_dict a_desc @ [('''', VInt 7)]))
   \<and> fst (AbstractMetadata_get (snd (AbstractMetadata_add a_desc '''' (VInt 7))) (Some ''''))
       \<noteq> Inr (Item (VInt 7))"
  by (simp add: a_desc_dict AbstractMetadata_add_def AbstractMetadata_get_def truthy_str_def)

text \<open>
  C1, amended. For every attribute store, every non-empty key \<open>k\<close> not present in it and
  all values \<open>v\<close> and \<open>w\<close>: \<^verbatim>\<open>add(k, v)\<close> succeeds; \<^verbatim>\<open>get(k)\<close> then returns \<open>v\<close>; a second
  \<^verbatim>\<open>add(k, w)\<close> raises \<^verbatim>\<open>ValueError\<close> (the DuplicateKeyError) and leaves the record as it
  was, so the value stored for \<open>k\<close> is still \<open>v\<close>.
\<close>

theorem add_then_get:
  assumes "k \<noteq> []" and "map_of (metadata_dict self) k = None"
  shows "fst (AbstractMetadata_add self k v) = Inr ()
    \<and> fst (AbstractMetadata_get (snd (AbstractMetadata_add self k v)) (Some k)) = Inr (Item v)
    \<and> AbstractMetadata_add (snd (AbstractMetadata_add self k v)) k w
        = (Inl ValueError, snd (AbstractMetadata_add self k v))
    \<and> map_of (metadata_dict
         (snd (AbstractMetadata_add (snd (AbstractMetadata_add self k v)) k w))) k = Some v"
  using assms
  by (simp add: AbstractMetadata_add_def AbstractMetadata_get_def truthy_str_def
      map_of_update_same)

theorem add_then_get_witness:
  "''colour'' \<noteq> [] \<and> map_of (metadata_dict a_desc) ''colour'' = None
   \<and> fst (AbstractMetadata_add a_desc ''colour'' (VStr ''red'')) = Inr ()
   \<and> fst (AbstractMetadata_get (snd (AbstractMetadata_add a_desc ''colour'' (VStr ''red'')))
        (Some ''colour'')) = Inr (Item (VStr ''red''))
   \<and> fst (AbstractMetadata_add (snd (AbstractMetadata_add a_desc ''colour'' (VStr ''red'')))
        ''colour'' (VStr ''blue'')) = Inl ValueError"
proof -
  have absent: "map_of (metadata_dict a_desc) ''colour'' = None"
    by (simp add: a_desc_dict)
  have nonempty: "''colour'' \<noteq> []"
    by simp
  show ?thesis
    using add_then_get [OF nonempty absent, of "VStr ''red''" "VStr ''blue''"] absent
    by simp
qed

text \<open>
  C2, as stated, fails at the empty key: on a fresh Descriptive record the key \<^verbatim>\<open>""\<close> is
  absent, yet \<^verbatim>\<open>get("")\<close> raises nothing and returns the whole mapping.
\<close>

theorem get_absent_empty_key:
  "map_of (metadata_dict a_desc) '''' = None
   \<and> AbstractMetadata_get a_desc (Some '''') = (Inr (Whole (metadata_dict a_desc)), a_desc)
   \<and> fst (AbstractMetadata_get a_desc (Some '''')) \<noteq> Inl KeyError"
  by (simp add: a_desc_dict AbstractMetadata_get_def truthy_str_def)

text \<open>
  C2, amended. For every attribute store and every key \<open>k\<close> not present in it:
  \<^verbatim>\<open>get(k)\<close> raises \<^verbatim>\<open>KeyError\<close> (the MissingKeyError) provided \<open>k\<close> is not empty;
  \<^verbatim>\<open>change(k, v)\<close> raises \<^verbatim>\<open>KeyError\<close> for every \<open>v\<close>; \<^verbatim>\<open>remove(k)\<close> raises nothing and
  prints one notice; and each of the three calls leaves the record unchanged.
\<close>

theorem absent_key_operations:
  assumes "map_of (metadata_dict self) k = None"
  shows "(k \<noteq> [] \<longrightarrow> AbstractMetadata_get self (Some k) = (Inl KeyError, self))
    \<and> AbstractMetadata_change self k v = (Inl KeyError, self)
    \<and> AbstractMetadata_remove self k = (Inr [''Key '' @ k @ '' does not exist.''], self)"
  using assms
  by (simp add: AbstractMetadata_get_def AbstractMetadata_change_def
      AbstractMetadata_remove_def truthy_str_def)

theorem absent_key_operations_witness:
  "map_of (metadata_dict a_desc) ''colour'' = None \<and> ''colour'' \<noteq> []
   \<and> AbstractMetadata_get a_desc (Some ''colour'') = (Inl KeyError, a_desc)
   \<and> AbstractMetadata_change a_desc ''colour'' (VStr ''red'') = (Inl KeyError, a_desc)
   \<and> AbstractMetadata_remove a_desc ''colour''
       = (Inr [''Key colour does not exist.''], a_desc)"
proof -
  have absent: "map_of (metadata_dict a_desc) ''colour'' = None"
    by (simp add: a_desc_dict)
  show ?thesis
    using absent_key_operations [OF absent, of "VStr ''red''"] absent
    by simp
qed

section \<open>The base update and the update counter\<close>

lemma dict_incr_int:
  "map_of d k = Some (VInt n) \<Longrightarrow> dict_incr k d = Inr (AList.update k (VInt (n + 1)) d)"
  by (simp add: dict_incr_def)

lemma dict_incr_absent: "map_of d k = None \<Longrightarrow> dict_incr k d = Inl KeyError"
  by (simp add: dict_incr_def)

lemma desc_has_no_updates:
  "map_of (metadata_dict (MetadataDesc_init ent name kwargs)) ''updates'' = None"
  by (simp add: MetadataDesc_init_def)

lemma process_has_no_updates:
  "map_of (metadata_dict (MetadataProcess_init e ent name kwargs)) ''updates'' = None"
  by (simp add: MetadataProcess_init_def)

text \<open>On every freshly constructed Descriptive or Process record the base \<^verbatim>\<open>update\<close>
  raises \<^verbatim>\<open>KeyError\<close>: their constructors never create the \<^verbatim>\<open>updates\<close> attribute.\<close>

lemma base_update_desc:
  "AbstractMetadata_update (MetadataDesc_init ent name kwargs) event
     = (Inl KeyError, MetadataDesc_init ent name kwargs)"
  by (simp add: AbstractMetadata_update_def dict_incr_absent desc_has_no_updates)

lemma base_update_process:
  "AbstractMetadata_update (MetadataProcess_init e ent name kwargs) event
     = (Inl KeyError, MetadataProcess_init e ent name kwargs)"
  by (simp add: AbstractMetadata_update_def dict_incr_absent process_has_no_updates)

text \<open>On a freshly constructed Administrative record the base \<^verbatim>\<open>update\<close> succeeds and
  counts one update.\<close>

lemma admin_updates_zero:
  "map_of (metadata_dict (MetadataAdmin_init e ent name kwargs)) ''updates'' = Some (VInt 0)"
  by (simp add: MetadataAdmin_init_def Let_def)

lemma base_update_admin:
  "fst (AbstractMetadata_update (MetadataAdmin_init e ent name kwargs) event) = Inr ()
   \<and> map_of (metadata_dict
        (snd (AbstractMetadata_update (MetadataAdmin_init e ent name kwargs) event)))
        ''updates'' = Some (VInt 1)"
  by (simp add: AbstractMetadata_update_def dict_incr_int [OF admin_updates_zero]
      map_of_update_same)

text \<open>
  C4. The claim lets the base \<^verbatim>\<open>update(event=None)\<close> count one update on a record of
  every kind. On the Descriptive record of a data set it raises \<^verbatim>\<open>KeyError\<close> and leaves
  the record without an \<^verbatim>\<open>updates\<close> attribute.
\<close>

theorem base_update_on_descriptive_record:
  "AbstractMetadata_update a_desc None = (Inl KeyError, a_desc)
   \<and> map_of (metadata_dict (snd (AbstractMetadata_update a_desc None))) ''updates'' = None"
  by (simp add: a_desc_def base_update_desc desc_has_no_updates)

section \<open>The Administrative record\<close>

lemma base_update_frame:
  "k \<noteq> ''updates'' \<Longrightarrow>
   map_of (metadata_dict (snd (AbstractMetadata_update self event))) k
     = map_of (metadata_dict self) k"
  by (auto simp: AbstractMetadata_update_def dict_incr_def map_of_update_other
      split: option.splits sum.splits)

lemma base_update_fields:
  "metadata_type (snd (AbstractMetadata_update self event)) = metadata_type self
   \<and> name_attr (snd (AbstractMetadata_update self event)) = name_attr self"
  by (auto simp: AbstractMetadata_update_def split: sum.splits)

lemma admin_update_frame_key:
  assumes "k \<noteq> ''modifier''" and "k \<noteq> ''modified''" and "k \<noteq> ''updates''"
  shows "map_of (metadata_dict (snd (MetadataAdmin_update e self event))) k
     = map_of (metadata_dict self) k"
proof (cases "AbstractMetadata_update self None")
  case (Pair r s)
  have s: "map_of (metadata_dict s) k = map_of (metadata_dict self) k"
    using base_update_frame [OF assms(3), of self None] Pair by simp
  show ?thesis
  proof (cases r)
    case (Inl err)
    with Pair s show ?thesis
      by (simp add: MetadataAdmin_update_def)
  next
    case (Inr u)
    with Pair s assms show ?thesis
      by (auto simp: MetadataAdmin_update_def Let_def dict_incr_def map_of_update_other
          split: option.splits sum.splits)
  qed
qed

text \<open>
  When \<^verbatim>\<open>updates\<close> holds an integer, \<^verbatim>\<open>MetadataAdmin.update\<close> returns, stores the
  current login name and time, and counts two updates: one in the base method, one in
  its own body.
\<close>

lemma admin_update_rewrites:
  assumes "map_of (metadata_dict self) ''updates'' = Some (VInt n)"
  shows "fst (MetadataAdmin_update e self event) = Inr ()"
    and "map_of (metadata_dict (snd (MetadataAdmin_update e self event))) ''modifier''
      = Some (VStr (getlogin e))"
    and "map_of (metadata_dict (snd (MetadataAdmin_update e self event))) ''modified''
      = Some (VStr (strftime_c e))"
    and "map_of (metadata_dict (snd (MetadataAdmin_update e self event))) ''updates''
      = Some (VInt (n + 2))"
  using assms
  by (simp_all add: MetadataAdmin_update_def AbstractMetadata_update_def dict_incr_def
      Let_def update_conv')

text \<open>
  C5. For every Administrative record, every reading of the login name and the clock and
  every event: after \<^verbatim>\<open>update\<close> the attributes \<^verbatim>\<open>id\<close>, \<^verbatim>\<open>created\<close>, \<^verbatim>\<open>objectname\<close>,
  \<^verbatim>\<open>name\<close> and \<^verbatim>\<open>classname\<close> are what they were before, and so is every attribute other
  than \<^verbatim>\<open>modified\<close>, \<^verbatim>\<open>modifier\<close> and \<^verbatim>\<open>updates\<close>, whether the call returns or raises.
\<close>

theorem admin_update_frame:
  "(\<forall>k \<in> {''id'', ''created'', ''objectname'', ''name'', ''classname''}.
      map_of (metadata_dict (snd (MetadataAdmin_update e self event))) k
        = map_of (metadata_dict self) k)
   \<and> (\<forall>k. k \<notin> {''modified'', ''modifier'', ''updates''} \<longrightarrow>
      map_of (metadata_dict (snd (MetadataAdmin_update e self event))) k
        = map_of (metadata_dict self) k)"
proof -
  have frame: "map_of (metadata_dict (snd (MetadataAdmin_update e self event))) k
      = map_of (metadata_dict self) k"
    if "k \<notin> {''modified'', ''modifier'', ''updates''}" for k
    using that admin_update_frame_key [of k e self event] by simp
  have "k \<notin> {''modified'', ''modifier'', ''updates''}"
    if "k \<in> {''id'', ''created'', ''objectname'', ''name'', ''classname''}" for k
    using that by auto
  with frame show ?thesis
    by blast
qed

lemma an_admin_dict:
  "metadata_dict an_admin =
     [(''id'', VStr ''0b9f3c1e-5d1c-4c57-9d0e-6a1f2b3c4d5e''),
      (''name'', VStr ''sf_listings''),
      (''creator'', VStr ''John''),
      (''created'', VStr ''Sun Feb 16 07:04:22 2020''),
      (''modifier'', VStr ''John''),
      (''modified'', VStr ''Sun Feb 16 07:04:22 2020''),
      (''updates'', VInt 0),
      (''classname'', VStr ''DataSet''),
      (''objectname'', VStr ''john_2020-2-16_7-4-22__dataset_sf_listings'')]"
  by (simp add: an_admin_def MetadataAdmin_init_def an_env_def a_dataset_def Let_def
      str_nat.simps digit_char_def lower_def lower_char_def)

lemma an_admin_updated:
  "MetadataAdmin_update later_env an_admin None =
     (Inr (), an_admin\<lparr>metadata_dict :=
       [(''id'', VStr ''0b9f3c1e-5d1c-4c57-9d0e-6a1f2b3c4d5e''),
        (''name'', VStr ''sf_listings''),
        (''creator'', VStr ''John''),
        (''created'', VStr ''Sun Feb 16 07:04:22 2020''),
        (''modifier'', VStr ''jane''),
        (''modified'', VStr ''Mon Feb 17 09:30:00 2020''),
        (''updates'', VInt 2),
        (''classname'', VStr ''DataSet''),
        (''objectname'', VStr ''john_2020-2-16_7-4-22__dataset_sf_listings'')]\<rparr>)"
  by (simp add: MetadataAdmin_update_def AbstractMetadata_update_def dict_incr_def
      an_admin_dict later_env_def Let_def)

theorem admin_update_frame_witness:
  "''objectname'' \<in> {''id'', ''created'', ''objectname'', ''name'', ''classname''}
   \<and> ''creator'' \<notin> {''modified'', ''modifier'', ''updates''}
   \<and> fst (MetadataAdmin_update later_env an_admin None) = Inr ()
   \<and> map_of (metadata_dict (snd (MetadataAdmin_update later_env an_admin None))) ''objectname''
       = Some (VStr ''john_2020-2-16_7-4-22__dataset_sf_listings'')
   \<and> map_of (metadata_dict (snd (MetadataAdmin_update later_env an_admin None))) ''creator''
       = Some (VStr ''John'')
   \<and> map_of (metadata_dict (snd (MetadataAdmin_update later_env an_admin None))) ''modifier''
       = Some (VStr ''jane'')"
proof -
  have mem: "''objectname'' \<in> {''id'', ''created'', ''objectname'', ''name'', ''classname''}"
    by simp
  have non: "''creator'' \<notin> {''modified'', ''modifier'', ''updates''}"
    by simp
  note frame = admin_update_frame [of later_env an_admin None]
  have kept: "map_of (metadata_dict (snd (MetadataAdmin_update later_env an_admin None)))
          ''objectname'' = map_of (metadata_dict an_admin) ''objectname''"
    using frame [THEN conjunct1, THEN bspec, OF mem] .
  have other: "map_of (metadata_dict (snd (MetadataAdmin_update later_env an_admin None)))
          ''creator'' = map_of (metadata_dict an_admin) ''creator''"
    using frame [THEN conjunct2, rule_format, OF non] .
  have "map_of (metadata_dict an_admin) ''objectname''
      = Some (VStr ''john_2020-2-16_7-4-22__dataset_sf_listings'')"
    and "map_of (metadata_dict an_admin) ''creator'' = Some (VStr ''John'')"
    by (simp_all add: an_admin_dict)
  with kept other mem non show ?thesis
    by (simp add: an_admin_updated)
qed

section \<open>The Descriptive record of a collection\<close>

lemma count_members_counts:
  assumes "map_of d ''n_members'' = Some (VInt a)"
    and "map_of d ''n_members_datacollection'' = Some (VInt b)"
    and "map_of d ''n_members_dataset'' = Some (VInt c)"
  shows "fst (count_members items d) = Inr ()
    \<and> map_of (snd (count_members items d)) ''n_members''
        = Some (VInt (a + int (length items)))
    \<and> map_of (snd (count_members items d)) ''n_members_datacollection''
        = Some (VInt (b + int (length (filter (\<lambda>item. snd item = ''DataCollection'') items))))
    \<and> map_of (snd (count_members items d)) ''n_members_dataset''
        = Some (VInt (c + int (length (filter (\<lambda>item. snd item \<noteq> ''DataCollection'') items))))"
  using assms
proof (induction items arbitrary: d a b c)
  case Nil
  then show ?case by simp
next
  case (Cons item items)
  obtain k cls where item: "item = (k, cls)"
    by (cases item)
  let ?d1 = "AList.update ''n_members'' (VInt (a + 1)) d"
  have d1: "dict_incr ''n_members'' d = Inr ?d1"
    using Cons.prems(1) by (rule dict_incr_int)
  have d1_total: "map_of ?d1 ''n_members'' = Some (VInt (a + 1))"
    by (rule map_of_update_same)
  have d1_dc: "map_of ?d1 ''n_members_datacollection'' = Some (VInt b)"
    using Cons.prems(2) by (simp add: map_of_update_other)
  have d1_ds: "map_of ?d1 ''n_members_dataset'' = Some (VInt c)"
    using Cons.prems(3) by (simp add: map_of_update_other)
  show ?case
  proof (cases "cls = ''DataCollection''")
    case True
    let ?d2 = "AList.update ''n_members_datacollection'' (VInt (b + 1)) ?d1"
    have d2: "dict_incr ''n_members_datacollection'' ?d1 = Inr ?d2"
      using d1_dc by (rule dict_incr_int)
    have step: "count_members (item # items) d = count_members items ?d2"
      using item True d1 d2 by simp
    have "map_of ?d2 ''n_members'' = Some (VInt (a + 1))"
      and "map_of ?d2 ''n_members_datacollection'' = Some (VInt (b + 1))"
      and "map_of ?d2 ''n_members_dataset'' = Some (VInt c)"
      using d1_total d1_ds by (simp_all add: update_conv')
    from Cons.IH [OF this] show ?thesis
      unfolding step using item True by (simp add: ac_simps)
  next
    case False
    let ?d2 = "AList.update ''n_members_dataset'' (VInt (c + 1)) ?d1"
    have d2: "dict_incr ''n_members_dataset'' ?d1 = Inr ?d2"
      using d1_ds by (rule dict_incr_int)
    have step: "count_members (item # items) d = count_members items ?d2"
      using item False d1 d2 by simp
    have "map_of ?d2 ''n_members'' = Some (VInt (a + 1))"
      and "map_of ?d2 ''n_members_datacollection'' = Some (VInt b)"
      and "map_of ?d2 ''n_members_dataset'' = Some (VInt (c + 1))"
      using d1_total d1_dc by (simp_all add: update_conv')
    from Cons.IH [OF this] show ?thesis
      unfolding step using item False by (simp add: ac_simps)
  qed
qed

lemma reset_counters:
  "map_of (metadata_dict (MetadataDescDataCollection_reset self)) ''n_members''
     = Some (VInt 0)
   \<and> map_of (metadata_dict (MetadataDescDataCollection_reset self))
       ''n_members_datacollection'' = Some (VInt 0)
   \<and> map_of (metadata_dict (MetadataDescDataCollection_reset self)) ''n_members_dataset''
       = Some (VInt 0)"
  by (simp add: MetadataDescDataCollection_reset_def update_conv')

text \<open>
  C7. For every record (whatever its attributes hold before the call) and every collection
  entity whose member mapping has \<open>M\<close> members of class \<^verbatim>\<open>DataCollection\<close> and \<open>N\<close> other
  members: \<^verbatim>\<open>MetadataDescDataCollection.update\<close> returns without an exception and leaves
  \<^verbatim>\<open>n_members = N + M\<close>, \<^verbatim>\<open>n_members_datacollection = M\<close> and \<^verbatim>\<open>n_members_dataset = N\<close>.
\<close>

theorem collection_update_counts:
  "fst (MetadataDescDataCollection_update ent self event) = Inr ()
   \<and> map_of (metadata_dict (snd (MetadataDescDataCollection_update ent self event)))
       ''n_members''
       = Some (VInt (int (length (filter (\<lambda>item. snd item \<noteq> ''DataCollection'') (members ent)))
                   + int (length (filter (\<lambda>item. snd item = ''DataCollection'') (members ent)))))
   \<and> map_of (metadata_dict (snd (MetadataDescDataCollection_update ent self event)))
       ''n_members_datacollection''
       = Some (VInt (int (length (filter (\<lambda>item. snd item = ''DataCollection'') (members ent)))))
   \<and> map_of (metadata_dict (snd (MetadataDescDataCollection_update ent self event)))
       ''n_members_dataset''
       = Some (VInt (int (length (filter (\<lambda>item. snd item \<noteq> ''DataCollection'') (members ent)))))"
proof -
  let ?s = "MetadataDescDataCollection_reset self"
  have split: "length (filter (\<lambda>item. snd item \<noteq> ''DataCollection'') (members ent))
      + length (filter (\<lambda>item. snd item = ''DataCollection'') (members ent))
      = length (members ent)"
    using sum_length_filter_compl [of "\<lambda>item. snd item \<noteq> ''DataCollection''" "members ent"]
    by simp
  from reset_counters [of self]
  have zero: "map_of (metadata_dict ?s) ''n_members'' = Some (VInt 0)"
    "map_of (metadata_dict ?s) ''n_members_datacollection'' = Some (VInt 0)"
    "map_of (metadata_dict ?s) ''n_members_dataset'' = Some (VInt 0)"
    by simp_all
  have total: "int (length (members ent))
      = int (length (filter (\<lambda>item. snd item \<noteq> ''DataCollection'') (members ent)))
        + int (length (filter (\<lambda>item. snd item = ''DataCollection'') (members ent)))"
    using split by linarith
  from count_members_counts [OF zero, of "members ent"] show ?thesis
    by (simp add: MetadataDescDataCollection_update_def Let_def split_beta total)
qed

text \<open>
  A collection holding two data sets and one sub-collection: the counters computed by the
  definitions themselves.
\<close>

lemma collection_update_example:
  "MetadataDescDataCollection_update a_collection
     (MetadataDescDataCollection_init a_collection ''listings'' []) None
   = (Inr (), \<lparr>metadata_type = Descriptive,
       metadata_dict =
         [(''type'', VStr []), (''category'', VStr []), (''title'', VStr []),
          (''description_short'', VStr []), (''description'', VStr []),
          (''class'', VStr ''DataCollection''), (''version'', VStr ''0.1.0''),
          (''n_members'', VInt 3), (''n_members_datacollection'', VInt 1),
          (''n_members_dataset'', VInt 2)],
       name_attr = None\<rparr>)"
  by (simp add: MetadataDescDataCollection_update_def MetadataDescDataCollection_init_def
      MetadataDescDataCollection_reset_def MetadataDesc_init_def a_collection_def
      dict_incr_def Let_def)

section \<open>The taxonomy\<close>

lemma lower_kind_names:
  "lower ''Administrative'' = ''administrative''"
  "lower ''Descriptive'' = ''descriptive''"
  "lower ''Technical'' = ''technical''"
  "lower ''Process'' = ''process''"
  by (simp_all add: lower_def lower_char_def)

lemma lower_kind_name:
  "lower (kind_name kd) =
     (case kd of Administrative \<Rightarrow> ''administrative'' | Descriptive \<Rightarrow> ''descriptive''
      | Technical \<Rightarrow> ''technical'' | Process \<Rightarrow> ''process'')"
  by (cases kd) (simp_all add: lower_kind_names)

lemma list_all_update:
  "P (k, v) \<Longrightarrow> list_all P al \<Longrightarrow> list_all P (AList.update k v al)"
  by (induction al) auto

lemma taxonomy_inv_init: "taxonomy_inv Metadata_init"
  by (simp add: taxonomy_inv_def Metadata_init_def)

lemma taxonomy_inv_add: "taxonomy_inv t \<Longrightarrow> taxonomy_inv (Metadata_add t r)"
  unfolding taxonomy_inv_def Metadata_add_def
  by (simp add: distinct_update list_all_update)

lemma length_filter_key:
  "distinct (map fst al) \<Longrightarrow> length (filter (\<lambda>item. fst item = k) al) \<le> 1"
proof (induction al)
  case Nil
  then show ?case by simp
next
  case (Cons a al)
  show ?case
  proof (cases "fst a = k")
    case True
    with Cons.prems have "k \<notin> fst ` set al"
      by auto
    then have "filter (\<lambda>item. fst item = k) al = []"
      by (auto simp: filter_empty_conv)
    with True show ?thesis by simp
  next
    case False
    with Cons show ?thesis by simp
  qed
qed

lemma length_filter_mono:
  "(\<And>x. x \<in> set xs \<Longrightarrow> P x \<Longrightarrow> Q x) \<Longrightarrow> length (filter P xs) \<le> length (filter Q xs)"
  by (induction xs) auto

lemma one_record_per_kind:
  assumes "taxonomy_inv t"
  shows "length (records_of_kind kd t) \<le> 1"
proof -
  from assms have keys: "distinct (map fst t)"
    and stored: "list_all (\<lambda>item. fst item = lower (kind_name (metadata_type (snd item)))) t"
    by (simp_all add: taxonomy_inv_def)
  have "length (filter (\<lambda>item. metadata_type (snd item) = kd) t)
      \<le> length (filter (\<lambda>item. fst item = lower (kind_name kd)) t)"
  proof (rule length_filter_mono)
    fix x
    assume "x \<in> set t" and "metadata_type (snd x) = kd"
    with stored show "fst x = lower (kind_name kd)"
      by (auto simp: list_all_iff)
  qed
  also have "\<dots> \<le> 1"
    using keys by (rule length_filter_key)
  finally show ?thesis
    by (simp add: records_of_kind_def)
qed

lemma map_fst_update_present:
  "map_of al k \<noteq> None \<Longrightarrow> map fst (AList.update k v al) = map fst al"
  by (induction al) auto

text \<open>
  C9. For every taxonomy and all records \<open>r1\<close>, \<open>r2\<close> of the same kind: after
  \<^verbatim>\<open>add(r1)\<close> and \<^verbatim>\<open>add(r2)\<close> the record \<open>r2\<close> is the one stored under the lower-cased
  kind name, and the second \<^verbatim>\<open>add\<close> creates no further key. \<^verbatim>\<open>add\<close> has no failing
  branch. Every \<^verbatim>\<open>add\<close> preserves the invariant of the taxonomy, under which there is at
  most one record of each kind.
\<close>

theorem taxonomy_add_last_write_wins:
  "(metadata_type r1 = metadata_type r2 \<longrightarrow>
      map_of (Metadata_add (Metadata_add t r1) r2) (lower (kind_name (metadata_type r2)))
        = Some r2
      \<and> map fst (Metadata_add (Metadata_add t r1) r2) = map fst (Metadata_add t r1))
   \<and> (taxonomy_inv t \<longrightarrow>
        taxonomy_inv (Metadata_add t r1)
        \<and> length (records_of_kind kd (Metadata_add t r1)) \<le> 1)"
proof -
  have "map_of (Metadata_add (Metadata_add t r1) r2) (lower (kind_name (metadata_type r2)))
      = Some r2"
    by (simp add: Metadata_add_def map_of_update_same)
  moreover have "map fst (Metadata_add (Metadata_add t r1) r2) = map fst (Metadata_add t r1)"
    if "metadata_type r1 = metadata_type r2"
  proof -
    have "map_of (Metadata_add t r1) (lower (kind_name (metadata_type r2))) \<noteq> None"
      using that by (simp add: Metadata_add_def map_of_update_same)
    then show ?thesis
      unfolding Metadata_add_def [of "Metadata_add t r1" r2]
      by (rule map_fst_update_present)
  qed
  moreover have "taxonomy_inv (Metadata_add t r1)
      \<and> length (records_of_kind kd (Metadata_add t r1)) \<le> 1" if "taxonomy_inv t"
    using that taxonomy_inv_add one_record_per_kind by blast
  ultimately show ?thesis
    by blast
qed

lemma a_desc_kind: "metadata_type a_desc = Descriptive"
  by (simp add: a_desc_def MetadataDesc_init_def)

theorem taxonomy_add_last_write_wins_witness:
  "metadata_type a_desc = metadata_type (a_desc\<lparr>metadata_dict := []\<rparr>)
   \<and> taxonomy_inv Metadata_init
   \<and> Metadata_add (Metadata_add Metadata_init a_desc) (a_desc\<lparr>metadata_dict := []\<rparr>)
       = [(''descriptive'', a_desc\<lparr>metadata_dict := []\<rparr>)]
   \<and> map_of (Metadata_add (Metadata_add Metadata_init a_desc) (a_desc\<lparr>metadata_dict := []\<rparr>))
       ''descriptive'' = Some (a_desc\<lparr>metadata_dict := []\<rparr>)
   \<and> taxonomy_inv (Metadata_add Metadata_init a_desc)
   \<and> length (records_of_kind Descriptive (Metadata_add Metadata_init a_desc)) \<le> 1"
proof -
  have same: "metadata_type a_desc = metadata_type (a_desc\<lparr>metadata_dict := []\<rparr>)"
    by simp
  note lww = taxonomy_add_last_write_wins
    [of a_desc "a_desc\<lparr>metadata_dict := []\<rparr>" Metadata_init Descriptive]
  have stored: "map_of
      (Metadata_add (Metadata_add Metadata_init a_desc) (a_desc\<lparr>metadata_dict := []\<rparr>))
      (lower (kind_name (metadata_type (a_desc\<lparr>metadata_dict := []\<rparr>))))
      = Some (a_desc\<lparr>metadata_dict := []\<rparr>)"
    using lww [THEN conjunct1, rule_format, OF same] by (rule conjunct1)
  have inv: "taxonomy_inv (Metadata_add Metadata_init a_desc)
      \<and> length (records_of_kind Descriptive (Metadata_add Metadata_init a_desc)) \<le> 1"
    using lww [THEN conjunct2, rule_format, OF taxonomy_inv_init] .
  have listed: "Metadata_add (Metadata_add Metadata_init a_desc)
      (a_desc\<lparr>metadata_dict := []\<rparr>) = [(''descriptive'', a_desc\<lparr>metadata_dict := []\<rparr>)]"
    by (simp add: Metadata_add_def Metadata_init_def a_desc_kind lower_kind_names)
  from stored have "map_of
      (Metadata_add (Metadata_add Metadata_init a_desc) (a_desc\<lparr>metadata_dict := []\<rparr>))
      ''descriptive'' = Some (a_desc\<lparr>metadata_dict := []\<rparr>)"
    by (simp add: a_desc_kind lower_kind_names)
  with same inv listed taxonomy_inv_init show ?thesis
    by simp
qed

subsection \<open>Lookup by kind\<close>

lemma admin_key: "(lower (kind_name kd) = ''administrative'') = (kd = Administrative)"
  by (cases kd) (simp_all add: lower_kind_names)

lemma admin_prefix_matches:
  "py_in (lower ''admin'') (lower (lower (kind_name kd))) = (kd = Administrative)"
  by (cases kd) (simp_all add: lower_def lower_char_def)

lemma admin_name_matches:
  "py_in (lower ''Administrative'') (lower (lower (kind_name kd))) = (kd = Administrative)"
  by (cases kd) (simp_all add: lower_def lower_char_def)

lemma next_match_admin:
  assumes "\<And>kd. py_in (lower s) (lower (lower (kind_name kd))) = (kd = Administrative)"
    and "list_all (\<lambda>item. fst item = lower (kind_name (metadata_type (snd item)))) t"
    and "map_of t ''administrative'' = Some r"
  shows "next_match s t = Inr r"
  using assms(2,3)
proof (induction t)
  case Nil
  then show ?case by simp
next
  case (Cons item t)
  obtain k m where item: "item = (k, m)"
    by (cases item)
  with Cons.prems(1) have k: "k = lower (kind_name (metadata_type m))"
    by simp
  have hit: "py_in (lower s) (lower k) = (metadata_type m = Administrative)"
    using assms(1) [of "metadata_type m"] k by simp
  show ?case
  proof (cases "metadata_type m = Administrative")
    case True
    with k have "k = ''administrative''"
      by (simp add: lower_kind_names)
    with Cons.prems(2) item have "m = r"
      by simp
    with item hit True show ?thesis
      by simp
  next
    case False
    with k have "k \<noteq> ''administrative''"
      by (simp add: admin_key)
    with Cons.prems item have "next_match s t = Inr r"
      using Cons.IH by simp
    with item hit False show ?thesis
      by simp
  qed
qed

text \<open>
  The part of C3 that holds: in every taxonomy that satisfies the invariant and holds an
  Administrative record, \<^verbatim>\<open>get("admin")\<close> and \<^verbatim>\<open>get("Administrative")\<close> return that record.
\<close>

lemma get_admin_record:
  assumes "taxonomy_inv t" and "map_of t ''administrative'' = Some r"
  shows "Metadata_get t (Some ''admin'') = Inr (Item r)"
    and "Metadata_get t (Some ''Administrative'') = Inr (Item r)"
proof -
  from assms(1)
  have stored: "list_all (\<lambda>item. fst item = lower (kind_name (metadata_type (snd item)))) t"
    by (simp add: taxonomy_inv_def)
  have "next_match ''admin'' t = Inr r"
    using admin_prefix_matches stored assms(2) by (rule next_match_admin)
  then show "Metadata_get t (Some ''admin'') = Inr (Item r)"
    by (simp add: Metadata_get_def truthy_obj_def)
  have "next_match ''Administrative'' t = Inr r"
    using admin_name_matches stored assms(2) by (rule next_match_admin)
  then show "Metadata_get t (Some ''Administrative'') = Inr (Item r)"
    by (simp add: Metadata_get_def truthy_obj_def)
qed

text \<open>
  What the code does on a lookup without a match, in every taxonomy: the generator is
  exhausted and \<^verbatim>\<open>StopIteration\<close> leaves \<^verbatim>\<open>get\<close>. The \<^verbatim>\<open>KeyError\<close> that \<^verbatim>\<open>get\<close>
  constructs for this case is never raised, on any taxonomy and any argument.
\<close>

lemma next_match_none:
  "list_all (\<lambda>item. \<not> py_in (lower s) (lower (fst item))) t
   \<Longrightarrow> next_match s t = Inl StopIteration"
  by (induction t) auto

lemma get_no_match:
  "list_all (\<lambda>item. \<not> py_in (lower s) (lower (fst item))) t
   \<Longrightarrow> Metadata_get t (Some s) = Inl StopIteration"
  by (simp add: Metadata_get_def next_match_none)

lemma next_match_error: "next_match s t = Inl err \<Longrightarrow> err = StopIteration"
  by (induction t) (auto split: if_splits)

lemma get_never_KeyError: "Metadata_get t mt \<noteq> Inl KeyError"
  by (auto simp: Metadata_get_def truthy_obj_def split: option.splits sum.splits
      dest: next_match_error)

lemma a_taxonomy_items:
  "a_taxonomy =
     [(''administrative'', an_admin), (''descriptive'', a_desc), (''process'', a_process)]"
  by (simp add: a_taxonomy_def Metadata_add_def Metadata_init_def lower_kind_names a_desc_kind
      an_admin_def MetadataAdmin_init_def a_process_def MetadataProcess_init_def Let_def)

text \<open>
  C3. On the taxonomy of a data set that holds an Administrative, a Descriptive and a
  Process record, \<^verbatim>\<open>get("nonexistent")\<close> matches no kind name. The call ends with
  \<^verbatim>\<open>StopIteration\<close>, raised by \<^verbatim>\<open>next\<close>; the \<^verbatim>\<open>KeyError\<close> that the method constructs for
  a lookup without a match (the NotFoundError of the claim) is not what the caller sees.
\<close>

theorem taxonomy_get_without_match:
  "Metadata_get a_taxonomy (Some ''nonexistent'') = Inl StopIteration
   \<and> Metadata_get a_taxonomy (Some ''nonexistent'') \<noteq> Inl KeyError"
  by (simp add: a_taxonomy_items Metadata_get_def lower_def lower_char_def)

section \<open>The Process record\<close>

text \<open>At construction the log holds exactly one line, the "instantiated" line.\<close>

lemma process_init_log:
  "map_of (metadata_dict (MetadataProcess_init e ent name kwargs)) ''log''
     = Some (VList [classname ent @ '' object named '' @ [CHR 0x27] @ name @ [CHR 0x27]
         @ '' was instantiated '' @ '' at '' @ strftime_c e @ '' by '' @ getlogin e @ ''.''])"
  by (simp add: MetadataProcess_init_def Let_def)

lemma process_init_name_attr: "name_attr (MetadataProcess_init e ent name kwargs) = None"
  by (simp add: MetadataProcess_init_def Let_def)

text \<open>On every constructed Process record, \<^verbatim>\<open>update\<close> raises \<^verbatim>\<open>AttributeError\<close> for
  every event and writes nothing.\<close>

lemma process_update_constructed:
  "MetadataProcess_update e' ent' (MetadataProcess_init e ent name kwargs) event
     = (Inl AttributeError, MetadataProcess_init e ent name kwargs)"
  by (simp add: MetadataProcess_update_def process_init_name_attr)

text \<open>
  What \<^verbatim>\<open>update\<close> does on an object that has been given a \<^verbatim>\<open>_name\<close> attribute from
  outside and whose \<^verbatim>\<open>log\<close> attribute holds a list: a non-empty event appends one line
  at the end, the empty string changes nothing, and \<^verbatim>\<open>None\<close> raises \<^verbatim>\<open>TypeError\<close>.
\<close>

lemma process_update_named:
  assumes "name_attr self = Some n" and "map_of (metadata_dict self) ''log'' = Some (VList l)"
  shows "ev \<noteq> [] \<Longrightarrow>
      fst (MetadataProcess_update e ent self (Some ev)) = Inr ()
      \<and> map_of (metadata_dict (snd (MetadataProcess_update e ent self (Some ev)))) ''log''
          = Some (VList (l @ [''Class : '' @ classname ent @ ''Name : '' @ n @ ''Date : ''
               @ strftime_c e @ ''Event : '' @ ev]))"
    and "MetadataProcess_update e ent self (Some []) = (Inr (), self)"
    and "MetadataProcess_update e ent self None = (Inl TypeError, self)"
  using assms
  by (simp_all add: MetadataProcess_update_def log_append_def truthy_str_def Let_def
      map_of_update_same)

text \<open>
  C6. On the Process record constructed for a data set, \<^verbatim>\<open>update("loaded")\<close> appends
  nothing and \<^verbatim>\<open>update(None)\<close> is not a silent no-op: both calls raise
  \<^verbatim>\<open>AttributeError\<close>, because \<^verbatim>\<open>update\<close> reads \<^verbatim>\<open>self._name\<close>, which no constructor
  assigns. The log still holds the single line written at construction.
\<close>

theorem process_update_on_constructed_record:
  "MetadataProcess_update later_env a_dataset a_process (Some ''loaded'')
     = (Inl AttributeError, a_process)
   \<and> MetadataProcess_update later_env a_dataset a_process None
     = (Inl AttributeError, a_process)
   \<and> map_of (metadata_dict a_process) ''log''
     = Some (VList [''DataSet object named '' @ [CHR 0x27] @ ''sf_listings'' @ [CHR 0x27]
         @ '' was instantiated  at Sun Feb 16 07:04:22 2020 by John.''])"
  by (simp add: a_process_def process_update_constructed process_init_log
      a_dataset_def an_env_def)

section \<open>Administrative metadata of a remote source\<close>

lemma admin_keys:
  "map fst (metadata_dict (MetadataAdmin_init e ent name kwargs)) =
     [''id'', ''name'', ''creator'', ''created'', ''modifier'', ''modified'', ''updates'',
      ''classname'', ''objectname'']"
  by (simp add: MetadataAdmin_init_def Let_def)

text \<open>
  No key of an Administrative record contains \<^verbatim>\<open>url\<close>, so the filter of
  \<^verbatim>\<open>MetadataAdminURL.__init__\<close> selects nothing and the record is the one that
  \<^verbatim>\<open>MetadataAdmin.__init__\<close> built: the keyword arguments have no effect on it.
\<close>

lemma admin_url_ignores_kwargs:
  "MetadataAdminURL_init e ent name kwargs = MetadataAdmin_init e ent name []"
  by (simp add: MetadataAdminURL_init_def MetadataAdmin_init_def Let_def)

lemma remote_factory_create_admin:
  "MetadataRemoteFactory_create_admin e (MetadataRemoteFactory_init ent name)
     = (Inl AttributeError, MetadataRemoteFactory_init ent name)"
  by (simp add: MetadataRemoteFactory_create_admin_def MetadataRemoteFactory_init_def)

text \<open>
  C8. Built with the keyword argument \<^verbatim>\<open>url="http://example.org/listings.csv"\<close>, the
  Administrative record of a remote source has no attribute \<^verbatim>\<open>url\<close>: it has exactly the
  nine attributes of a plain Administrative record. The factory for remote sources cannot
  pass keyword arguments at all: its \<^verbatim>\<open>create_admin\<close> raises \<^verbatim>\<open>AttributeError\<close>.
\<close>

theorem remote_admin_drops_url:
  "map_of (metadata_dict (MetadataAdminURL_init an_env a_dataset ''remote''
      [(''url'', VStr ''http://example.org/listings.csv'')])) ''url'' = None
   \<and> map fst (metadata_dict (MetadataAdminURL_init an_env a_dataset ''remote''
      [(''url'', VStr ''http://example.org/listings.csv'')]))
     = [''id'', ''name'', ''creator'', ''created'', ''modifier'', ''modified'', ''updates'',
        ''classname'', ''objectname'']
   \<and> fst (MetadataRemoteFactory_create_admin an_env
        (MetadataRemoteFactory_init a_dataset ''remote'')) = Inl AttributeError"
proof -
  have keys: "map fst (metadata_dict (MetadataAdminURL_init an_env a_dataset ''remote''
      [(''url'', VStr ''http://example.org/listings.csv'')]))
     = [''id'', ''name'', ''creator'', ''created'', ''modifier'', ''modified'', ''updates'',
        ''classname'', ''objectname'']"
    by (simp add: admin_url_ignores_kwargs admin_keys)
  have "''url'' \<notin> set (map fst (metadata_dict (MetadataAdminURL_init an_env a_dataset
      ''remote'' [(''url'', VStr ''http://example.org/listings.csv'')])))"
    unfolding keys by simp
  then have "map_of (metadata_dict (MetadataAdminURL_init an_env a_dataset ''remote''
      [(''url'', VStr ''http://example.org/listings.csv'')])) ''url'' = None"
    by (simp add: map_of_eq_None_iff)
  with keys show ?thesis
    by (simp add: remote_factory_create_admin)
qed

end
